theory Spec2Isabelle
  imports Main "HOL-Library.Word"
begin

unbundle bit_operations_syntax

section \<open>The gRPC query handlers of the EVM module (x/evm/keeper/grpc_query.go)\<close>

text \<open>
  The handlers of \<^verbatim>\<open>Querier\<close> are embedded as HOL functions. Three kinds of code are
  called by the handlers but live outside the file:
  \<^item> go-ethereum's \<^verbatim>\<open>common.HexToAddress\<close> and \<^verbatim>\<open>Address.Hex\<close>: several properties
    depend on how lenient the hexadecimal parser is, so both are modelled below, with
    the EIP-55 checksum and the Keccak-256 hash it needs;
  \<^item> the functions of cosmos-sdk and the version constants of the artifact packages:
    parameters, collected in the record \<open>Packages\<close>;
  \<^item> the methods of \<^verbatim>\<open>Keeper\<close> that read the chain state: parameters, the fields of the
    record \<open>Keeper\<close>, each with the signature of its call site. Where a property depends
    on what such a method answers, the method is modelled from the specification, in a
    definition that says so.
\<close>

subsection \<open>Keccak-256, as used by the EIP-55 checksum\<close>

text \<open>
  The hash function of go-ethereum's \<^verbatim>\<open>sha3.NewLegacyKeccak256\<close>: the permutation
  Keccak-f[1600] on 25 lanes of 64 bits, a rate of 136 bytes, the padding byte \<^verbatim>\<open>0x01\<close>
  of the original Keccak submission, and 32 bytes of output.
\<close>

type_synonym byte = "8 word"

definition keccakRC :: "64 word list" where
  "keccakRC =
    [0x0000000000000001, 0x0000000000008082, 0x800000000000808A, 0x8000000080008000,
     0x000000000000808B, 0x0000000080000001, 0x8000000080008081, 0x8000000000008009,
     0x000000000000008A, 0x0000000000000088, 0x0000000080008009, 0x000000008000000A,
     0x000000008000808B, 0x800000000000008B, 0x8000000000008089, 0x8000000000008003,
     0x8000000000008002, 0x8000000000000080, 0x000000000000800A, 0x800000008000000A,
     0x8000000080008081, 0x8000000000008080, 0x0000000080000001, 0x8000000080008008]"

definition keccakRot :: "nat list" where
  "keccakRot =
    [0, 1, 62, 28, 27,
     36, 44, 6, 55, 20,
     3, 10, 43, 25, 39,
     41, 45, 15, 21, 8,
     18, 2, 61, 56, 14]"

definition keccakRound :: "64 word list \<Rightarrow> 64 word \<Rightarrow> 64 word list" where
  "keccakRound a rc =
    (let c = map (\<lambda>x. a ! x XOR a ! (x + 5) XOR a ! (x + 10) XOR a ! (x + 15) XOR a ! (x + 20)) [0..<5];
         d = map (\<lambda>x. c ! ((x + 4) mod 5) XOR word_rotl 1 (c ! ((x + 1) mod 5))) [0..<5];
         t = map (\<lambda>i. a ! i XOR d ! (i mod 5)) [0..<25];
         b = map (\<lambda>i. let X = i mod 5; Y = i div 5; j = (X + 3 * Y) mod 5 + 5 * X
                        in word_rotl (keccakRot ! j) (t ! j)) [0..<25];
         e = map (\<lambda>i. let X = i mod 5; Y = i div 5
                        in b ! i XOR (NOT (b ! ((X + 1) mod 5 + 5 * Y)) AND b ! ((X + 2) mod 5 + 5 * Y)))
                 [0..<25]
     in e[0 := e ! 0 XOR rc])"

definition keccakF1600 :: "64 word list \<Rightarrow> 64 word list" where
  "keccakF1600 a = foldl keccakRound a keccakRC"

definition loadLane :: "byte list \<Rightarrow> 64 word" where
  "loadLane bs = foldr (\<lambda>b acc. push_bit 8 acc OR ucast b) bs 0"

fun lanes :: "nat \<Rightarrow> byte list \<Rightarrow> 64 word list" where
  "lanes 0 bs = []"
| "lanes (Suc n) bs = loadLane (take 8 bs) # lanes n (drop 8 bs)"

definition absorbBlock :: "64 word list \<Rightarrow> byte list \<Rightarrow> 64 word list" where
  "absorbBlock st blk = keccakF1600 (map2 (XOR) st (lanes 17 blk @ replicate 8 0))"

definition keccakPad :: "byte list \<Rightarrow> byte list" where
  "keccakPad m =
    (let q = 136 - length m mod 136
     in if q = 1 then m @ [0x81] else m @ [0x01] @ replicate (q - 2) 0 @ [0x80])"

fun blocks :: "nat \<Rightarrow> byte list \<Rightarrow> byte list list" where
  "blocks 0 bs = []"
| "blocks (Suc n) bs = take 136 bs # blocks n (drop 136 bs)"

definition Keccak256 :: "byte list \<Rightarrow> byte list" where
  "Keccak256 m =
    (let p = keccakPad m;
         st = foldl absorbBlock (replicate 25 0) (blocks (length p div 136) p)
     in map (\<lambda>i. ucast (drop_bit (8 * (i mod 8)) (st ! (i div 8)))) [0..<32])"


subsection \<open>go-ethereum: hexadecimal addresses\<close>

text \<open>
  \<^verbatim>\<open>HexToAddress\<close> never fails: it drops an optional \<^verbatim>\<open>0x\<close>, pads an odd number of digits,
  decodes byte pairs up to the first character that is no hexadecimal digit
  (\<^verbatim>\<open>Hex2Bytes\<close> ignores the decoder's error and keeps the bytes decoded so far), keeps the
  last 20 bytes and pads with zero bytes on the left. Go strings are byte strings, as
  \<open>string\<close> is here.
\<close>

type_synonym Address = "byte list"

definition has0xPrefix :: "string \<Rightarrow> bool" where
  "has0xPrefix s = (length s \<ge> 2 \<and> s ! 0 = CHR ''0'' \<and> (s ! 1 = CHR ''x'' \<or> s ! 1 = CHR ''X''))"

definition fromHexChar :: "char \<Rightarrow> nat option" where
  "fromHexChar c =
    (let n = (of_char c :: nat)
     in if 48 \<le> n \<and> n \<le> 57 then Some (n - 48)
        else if 97 \<le> n \<and> n \<le> 102 then Some (n - 87)
        else if 65 \<le> n \<and> n \<le> 70 then Some (n - 55)
        else None)"

fun hexDecode :: "string \<Rightarrow> byte list" where
  "hexDecode (p # q # rest) =
    (case fromHexChar p of
       None \<Rightarrow> []
     | Some a \<Rightarrow> (case fromHexChar q of
         None \<Rightarrow> []
       | Some b \<Rightarrow> of_nat (16 * a + b) # hexDecode rest))"
| "hexDecode _ = []"

definition Hex2Bytes :: "string \<Rightarrow> byte list" where
  "Hex2Bytes str = hexDecode str"

definition FromHex :: "string \<Rightarrow> byte list" where
  "FromHex s =
    (let s1 = (if has0xPrefix s then drop 2 s else s);
         s2 = (if length s1 mod 2 = 1 then CHR ''0'' # s1 else s1)
     in Hex2Bytes s2)"

definition AddressLength :: nat where
  "AddressLength = 20"

definition BytesToAddress :: "byte list \<Rightarrow> Address" where
  "BytesToAddress b =
    (let b' = (if length b > AddressLength then drop (length b - AddressLength) b else b)
     in replicate (AddressLength - length b') 0 @ b')"

definition HexToAddress :: "string \<Rightarrow> Address" where
  "HexToAddress s = BytesToAddress (FromHex s)"

text \<open>
  \<^verbatim>\<open>Address.Hex\<close> prints \<^verbatim>\<open>0x\<close> and the 40 lower-case digits of the address, and then
  raises every letter whose nibble in the Keccak-256 hash of the 40 digits is above 7
  (EIP-55). The hash has 32 bytes, so the byte read for each of the 40 positions exists.
\<close>

definition hextable :: string where
  "hextable = ''0123456789abcdef''"

definition hexEncode :: "byte list \<Rightarrow> string" where
  "hexEncode bs = concat (map (\<lambda>b. [hextable ! (unat b div 16), hextable ! (unat b mod 16)]) bs)"

fun checksumFrom :: "byte list \<Rightarrow> nat \<Rightarrow> string \<Rightarrow> string" where
  "checksumFrom hash i [] = []"
| "checksumFrom hash i (c # cs) =
    (let hashByte = hash ! (i div 2);
         nib = (if i mod 2 = 0 then drop_bit 4 hashByte else hashByte AND 0xf)
     in (if (of_char c :: nat) > of_char CHR ''9'' \<and> nib > 7
         then char_of ((of_char c :: nat) - 32) else c) # checksumFrom hash (i + 1) cs)"

definition checksumHex :: "Address \<Rightarrow> string" where
  "checksumHex a =
    (let digits = hexEncode a
     in ''0x'' @ checksumFrom (Keccak256 (map of_char digits)) 0 digits)"

definition Address_Hex :: "Address \<Rightarrow> string" where
  "Address_Hex a = checksumHex a"

subsection \<open>Errors, gas meters and the query context\<close>

text \<open>
  The error values the handlers return: \<^verbatim>\<open>sdkerrors.ErrInvalidRequest\<close>,
  \<^verbatim>\<open>errors.ErrUnsupported\<close>, an error made by \<^verbatim>\<open>errors.New\<close> with its message, and an
  error produced by a callee (the bech32 decoder, the EVM) and passed on unchanged.
\<close>

datatype error =
    ErrInvalidRequest
  | ErrUnsupported
  | ErrorNew string
  | ErrorFrom string

definition ErrMustSpecifyPointer :: error where
  "ErrMustSpecifyPointer = ErrorNew ''must specify a pointer''"

definition ErrMustSpecifyPointee :: error where
  "ErrMustSpecifyPointee = ErrorNew ''must specify a pointee''"

text \<open>
  A gas meter: its limit and the gas consumed so far, which the interface reports, whether
  it is the infinite meter, which enforces no limit and reports the limit 0, and the
  multiplier (numerator and denominator) it charges with.
\<close>

record GasMeter =
  Limit :: "64 word"
  GasConsumed :: "64 word"
  Infinite :: bool
  Multiplier :: "64 word \<times> 64 word"

text \<open>
  The context of a query: its gas meter and the chain-state snapshot it reads, whose
  representation \<open>'st\<close> is left open.
\<close>

record 'st Context =
  GasMeter :: GasMeter
  BlockHeight :: int
  ChainID :: string
  MultiStore :: 'st

definition WithGasMeter :: "'st Context \<Rightarrow> GasMeter \<Rightarrow> 'st Context" where
  "WithGasMeter ctx meter = ctx\<lparr>GasMeter := meter\<rparr>"

type_synonym AccAddress = "byte list"

text \<open>
  \<^verbatim>\<open>types.PointerType\<close> is a protobuf enum, in Go an \<^verbatim>\<open>int32\<close>: besides the seven named
  values a request can carry any other number, which \<open>PointerType_Other\<close> stands for.
\<close>

datatype PointerType =
    PointerType_NATIVE
  | PointerType_CW20
  | PointerType_CW721
  | PointerType_CW1155
  | PointerType_ERC20
  | PointerType_ERC721
  | PointerType_ERC1155
  | PointerType_Other "32 word"

definition ModuleName :: string where
  "ModuleName = ''evm''"

subsection \<open>Requests and responses\<close>

record QuerySeiAddressByEVMAddressRequest =
  EvmAddress :: string

record QuerySeiAddressByEVMAddressResponse =
  SeiAddress :: string
  Associated :: bool

record QueryEVMAddressBySeiAddressRequest =
  req_SeiAddress :: string

record QueryEVMAddressBySeiAddressResponse =
  res_EvmAddress :: string
  res_Associated :: bool

record QueryStaticCallRequest =
  To :: string
  Data :: "byte list"

record QueryStaticCallResponse =
  res_Data :: "byte list"

record QueryPointerRequest =
  ptr_PointerType :: PointerType
  ptr_Pointee :: string

record QueryPointerResponse =
  ptr_Pointer :: string
  ptr_Version :: "32 word"
  ptr_Exists :: bool

record QueryPointerVersionRequest =
  ver_PointerType :: PointerType

record QueryPointerVersionResponse =
  ver_Version :: "32 word"
  ver_CwCodeId :: "64 word"

record QueryPointeeRequest =
  pte_PointerType :: PointerType
  pte_Pointer :: string

record QueryPointeeResponse =
  pte_Pointee :: string
  pte_Version :: "32 word"
  pte_Exists :: bool

subsection \<open>What the handlers call\<close>

text \<open>
  The functions of cosmos-sdk and the current versions declared by the artifact packages.
  Six versions are package-level values; \<^verbatim>\<open>cw20.CurrentVersion\<close> is a function of the
  context.
\<close>

record 'st Packages =
  AccAddressFromBech32 :: "string \<Rightarrow> error + AccAddress"
  AccAddress_String :: "AccAddress \<Rightarrow> string"
  NewGasMeterWithMultiplier :: "'st Context \<Rightarrow> 64 word \<Rightarrow> GasMeter"
  native_CurrentVersion :: "16 word"
  cw20_CurrentVersion :: "'st Context \<Rightarrow> 16 word"
  cw721_CurrentVersion :: "16 word"
  cw1155_CurrentVersion :: "16 word"
  erc20_CurrentVersion :: "16 word"
  erc721_CurrentVersion :: "16 word"
  erc1155_CurrentVersion :: "16 word"

text \<open>
  Modelled from the spec: \<^verbatim>\<open>sdk.NewGasMeterWithMultiplier\<close> is declared outside the file.
  Section 4.4 has the budget of a call that finds no ambient budget start from a fresh
  baseline, with the configured multiplier applied, and never be unlimited: the new meter
  enforces the limit it is given, has consumed nothing, and charges with the gas
  multiplier \<open>mult\<close> configured for the context.
\<close>

definition NewGasMeterWithMultiplier_spec ::
  "('st Context \<Rightarrow> 64 word \<times> 64 word) \<Rightarrow> 'st Context \<Rightarrow> 64 word \<Rightarrow> GasMeter" where
  "NewGasMeterWithMultiplier_spec mult ctx limit =
    \<lparr>Limit = limit, GasConsumed = 0, Infinite = False, Multiplier = mult ctx\<rparr>"

text \<open>
  The keeper behind \<^verbatim>\<open>Querier\<close>: its query configuration, the module-address lookup of
  its account keeper and the methods the handlers call. \<open>StaticCallEVM\<close> also returns the
  state in which it leaves the gas meter of the context it was given.
\<close>

record 'st Keeper =
  QueryConfig_GasLimit :: "64 word"
  GetModuleAddress :: "string \<Rightarrow> AccAddress"
  GetSeiAddress :: "'st Context \<Rightarrow> Address \<Rightarrow> AccAddress \<times> bool"
  GetEVMAddress :: "'st Context \<Rightarrow> AccAddress \<Rightarrow> Address \<times> bool"
  StaticCallEVM :: "'st Context \<Rightarrow> AccAddress \<Rightarrow> Address \<Rightarrow> byte list
                      \<Rightarrow> (error + byte list) \<times> GasMeter"
  GetERC20NativePointer :: "'st Context \<Rightarrow> string \<Rightarrow> Address \<times> 16 word \<times> bool"
  GetERC20CW20Pointer :: "'st Context \<Rightarrow> string \<Rightarrow> Address \<times> 16 word \<times> bool"
  GetERC721CW721Pointer :: "'st Context \<Rightarrow> string \<Rightarrow> Address \<times> 16 word \<times> bool"
  GetERC1155CW1155Pointer :: "'st Context \<Rightarrow> string \<Rightarrow> Address \<times> 16 word \<times> bool"
  GetCW20ERC20Pointer :: "'st Context \<Rightarrow> Address \<Rightarrow> AccAddress \<times> 16 word \<times> bool"
  GetCW721ERC721Pointer :: "'st Context \<Rightarrow> Address \<Rightarrow> AccAddress \<times> 16 word \<times> bool"
  GetCW1155ERC1155Pointer :: "'st Context \<Rightarrow> Address \<Rightarrow> AccAddress \<times> 16 word \<times> bool"
  GetNativePointee :: "'st Context \<Rightarrow> string \<Rightarrow> string \<times> 16 word \<times> bool"
  GetCW20Pointee :: "'st Context \<Rightarrow> Address \<Rightarrow> string \<times> 16 word \<times> bool"
  GetCW721Pointee :: "'st Context \<Rightarrow> Address \<Rightarrow> string \<times> 16 word \<times> bool"
  GetCW1155Pointee :: "'st Context \<Rightarrow> Address \<Rightarrow> string \<times> 16 word \<times> bool"
  GetERC20Pointee :: "'st Context \<Rightarrow> string \<Rightarrow> Address \<times> 16 word \<times> bool"
  GetERC721Pointee :: "'st Context \<Rightarrow> string \<Rightarrow> Address \<times> 16 word \<times> bool"
  GetERC1155Pointee :: "'st Context \<Rightarrow> string \<Rightarrow> Address \<times> 16 word \<times> bool"
  GetStoredPointerCodeID :: "'st Context \<Rightarrow> PointerType \<Rightarrow> 64 word"

subsection \<open>The handlers\<close>

definition SeiAddressByEVMAddress ::
  "'st Packages \<Rightarrow> 'st Keeper \<Rightarrow> 'st Context \<Rightarrow> QuerySeiAddressByEVMAddressRequest
    \<Rightarrow> error + QuerySeiAddressByEVMAddressResponse" where
  "SeiAddressByEVMAddress P q ctx req =
    (if EvmAddress req = [] then Inl ErrInvalidRequest
     else let evmAddr = HexToAddress (EvmAddress req);
              (addr, found) = GetSeiAddress q ctx evmAddr
          in if \<not> found then Inr \<lparr>SeiAddress = [], Associated = False\<rparr>
             else Inr \<lparr>SeiAddress = AccAddress_String P addr, Associated = True\<rparr>)"

definition EVMAddressBySeiAddress ::
  "'st Packages \<Rightarrow> 'st Keeper \<Rightarrow> 'st Context \<Rightarrow> QueryEVMAddressBySeiAddressRequest
    \<Rightarrow> error + QueryEVMAddressBySeiAddressResponse" where
  "EVMAddressBySeiAddress P q ctx req =
    (if req_SeiAddress req = [] then Inl ErrInvalidRequest
     else case AccAddressFromBech32 P (req_SeiAddress req) of
       Inl err \<Rightarrow> Inl err
     | Inr seiAddr \<Rightarrow>
         (let (addr, found) = GetEVMAddress q ctx seiAddr
          in if \<not> found then Inr \<lparr>res_EvmAddress = [], res_Associated = False\<rparr>
             else Inr \<lparr>res_EvmAddress = Address_Hex addr, res_Associated = True\<rparr>))"

text \<open>
  The context \<^verbatim>\<open>StaticCall\<close> executes under (lines 71 to 73): the one it was given, with a
  new gas meter when the limit of the given one is zero.
\<close>

definition StaticCall_ctx :: "'st Packages \<Rightarrow> 'st Keeper \<Rightarrow> 'st Context \<Rightarrow> 'st Context" where
  "StaticCall_ctx P q ctx =
    (if Limit (GasMeter ctx) = 0
     then WithGasMeter ctx (NewGasMeterWithMultiplier P ctx (QueryConfig_GasLimit q))
     else ctx)"

text \<open>
  \<^verbatim>\<open>StaticCall\<close> returns, beside its result, the gas meter of the context it was called
  with, as the caller finds it afterwards. The meter is shared with the callee: the
  execution charges it, unless the handler has put a new meter in its own copy of the
  context, which leaves the caller's untouched.
\<close>

definition StaticCall ::
  "'st Packages \<Rightarrow> 'st Keeper \<Rightarrow> 'st Context \<Rightarrow> QueryStaticCallRequest
    \<Rightarrow> (error + QueryStaticCallResponse) \<times> GasMeter" where
  "StaticCall P q ctx req =
    (if To req = [] then (Inl (ErrorNew ''cannot use static call to create contracts''), GasMeter ctx)
     else let ctx' = StaticCall_ctx P q ctx;
              to = HexToAddress (To req);
              (r, meter) = StaticCallEVM q ctx' (GetModuleAddress q ModuleName) to (Data req);
              seen = (if Limit (GasMeter ctx) = 0 then GasMeter ctx else meter)
          in case r of
               Inl err \<Rightarrow> (Inl err, seen)
             | Inr res \<Rightarrow> (Inr \<lparr>res_Data = res\<rparr>, seen))"

definition Pointer ::
  "'st Packages \<Rightarrow> 'st Keeper \<Rightarrow> 'st Context \<Rightarrow> QueryPointerRequest
    \<Rightarrow> error + QueryPointerResponse" where
  "Pointer P q ctx req =
    (if ptr_Pointee req = [] then Inl ErrMustSpecifyPointee
     else case ptr_PointerType req of
       PointerType_NATIVE \<Rightarrow>
         (let (p, v, e) = GetERC20NativePointer q ctx (ptr_Pointee req)
          in if \<not> e then Inr \<lparr>ptr_Pointer = [], ptr_Version = 0, ptr_Exists = e\<rparr>
             else Inr \<lparr>ptr_Pointer = Address_Hex p, ptr_Version = ucast v, ptr_Exists = e\<rparr>)
     | PointerType_CW20 \<Rightarrow>
         (let (p, v, e) = GetERC20CW20Pointer q ctx (ptr_Pointee req)
          in if \<not> e then Inr \<lparr>ptr_Pointer = [], ptr_Version = 0, ptr_Exists = e\<rparr>
             else Inr \<lparr>ptr_Pointer = Address_Hex p, ptr_Version = ucast v, ptr_Exists = e\<rparr>)
     | PointerType_CW721 \<Rightarrow>
         (let (p, v, e) = GetERC721CW721Pointer q ctx (ptr_Pointee req)
          in if \<not> e then Inr \<lparr>ptr_Pointer = [], ptr_Version = 0, ptr_Exists = e\<rparr>
             else Inr \<lparr>ptr_Pointer = Address_Hex p, ptr_Version = ucast v, ptr_Exists = e\<rparr>)
     | PointerType_CW1155 \<Rightarrow>
         (let (p, v, e) = GetERC1155CW1155Pointer q ctx (ptr_Pointee req)
          in if \<not> e then Inr \<lparr>ptr_Pointer = [], ptr_Version = 0, ptr_Exists = e\<rparr>
             else Inr \<lparr>ptr_Pointer = Address_Hex p, ptr_Version = ucast v, ptr_Exists = e\<rparr>)
     | PointerType_ERC20 \<Rightarrow>
         (let (p, v, e) = GetCW20ERC20Pointer q ctx (HexToAddress (ptr_Pointee req))
          in if \<not> e then Inr \<lparr>ptr_Pointer = [], ptr_Version = 0, ptr_Exists = e\<rparr>
             else Inr \<lparr>ptr_Pointer = AccAddress_String P p, ptr_Version = ucast v, ptr_Exists = e\<rparr>)
     | PointerType_ERC721 \<Rightarrow>
         (let (p, v, e) = GetCW721ERC721Pointer q ctx (HexToAddress (ptr_Pointee req))
          in if \<not> e then Inr \<lparr>ptr_Pointer = [], ptr_Version = 0, ptr_Exists = e\<rparr>
             else Inr \<lparr>ptr_Pointer = AccAddress_String P p, ptr_Version = ucast v, ptr_Exists = e\<rparr>)
     | PointerType_ERC1155 \<Rightarrow>
         (let (p, v, e) = GetCW1155ERC1155Pointer q ctx (HexToAddress (ptr_Pointee req))
          in if \<not> e then Inr \<lparr>ptr_Pointer = [], ptr_Version = 0, ptr_Exists = e\<rparr>
             else Inr \<lparr>ptr_Pointer = AccAddress_String P p, ptr_Version = ucast v, ptr_Exists = e\<rparr>)
     | PointerType_Other n \<Rightarrow> Inl ErrUnsupported)"

definition PointerVersion ::
  "'st Packages \<Rightarrow> 'st Keeper \<Rightarrow> 'st Context \<Rightarrow> QueryPointerVersionRequest
    \<Rightarrow> error + QueryPointerVersionResponse" where
  "PointerVersion P q ctx req =
    (case ver_PointerType req of
       PointerType_NATIVE \<Rightarrow>
         Inr \<lparr>ver_Version = ucast (native_CurrentVersion P), ver_CwCodeId = 0\<rparr>
     | PointerType_CW20 \<Rightarrow>
         Inr \<lparr>ver_Version = ucast (cw20_CurrentVersion P ctx), ver_CwCodeId = 0\<rparr>
     | PointerType_CW721 \<Rightarrow>
         Inr \<lparr>ver_Version = ucast (cw721_CurrentVersion P), ver_CwCodeId = 0\<rparr>
     | PointerType_CW1155 \<Rightarrow>
         Inr \<lparr>ver_Version = ucast (cw1155_CurrentVersion P), ver_CwCodeId = 0\<rparr>
     | PointerType_ERC20 \<Rightarrow>
         Inr \<lparr>ver_Version = ucast (erc20_CurrentVersion P),
              ver_CwCodeId = GetStoredPointerCodeID q ctx PointerType_ERC20\<rparr>
     | PointerType_ERC721 \<Rightarrow>
         Inr \<lparr>ver_Version = ucast (erc721_CurrentVersion P),
              ver_CwCodeId = GetStoredPointerCodeID q ctx PointerType_ERC721\<rparr>
     | PointerType_ERC1155 \<Rightarrow>
         Inr \<lparr>ver_Version = ucast (erc1155_CurrentVersion P),
              ver_CwCodeId = GetStoredPointerCodeID q ctx PointerType_ERC1155\<rparr>
     | PointerType_Other n \<Rightarrow> Inl ErrUnsupported)"

definition Pointee ::
  "'st Packages \<Rightarrow> 'st Keeper \<Rightarrow> 'st Context \<Rightarrow> QueryPointeeRequest
    \<Rightarrow> error + QueryPointeeResponse" where
  "Pointee P q ctx req =
    (if pte_Pointer req = [] then Inl ErrMustSpecifyPointer
     else case pte_PointerType req of
       PointerType_NATIVE \<Rightarrow>
         (let (p, v, e) = GetNativePointee q ctx (pte_Pointer req)
          in if \<not> e then Inr \<lparr>pte_Pointee = [], pte_Version = 0, pte_Exists = e\<rparr>
             else Inr \<lparr>pte_Pointee = p, pte_Version = ucast v, pte_Exists = e\<rparr>)
     | PointerType_CW20 \<Rightarrow>
         (let (p, v, e) = GetCW20Pointee q ctx (HexToAddress (pte_Pointer req))
          in if \<not> e then Inr \<lparr>pte_Pointee = [], pte_Version = 0, pte_Exists = e\<rparr>
             else Inr \<lparr>pte_Pointee = p, pte_Version = ucast v, pte_Exists = e\<rparr>)
     | PointerType_CW721 \<Rightarrow>
         (let (p, v, e) = GetCW721Pointee q ctx (HexToAddress (pte_Pointer req))
          in if \<not> e then Inr \<lparr>pte_Pointee = [], pte_Version = 0, pte_Exists = e\<rparr>
             else Inr \<lparr>pte_Pointee = p, pte_Version = ucast v, pte_Exists = e\<rparr>)
     | PointerType_CW1155 \<Rightarrow>
         (let (p, v, e) = GetCW1155Pointee q ctx (HexToAddress (pte_Pointer req))
          in if \<not> e then Inr \<lparr>pte_Pointee = [], pte_Version = 0, pte_Exists = e\<rparr>
             else Inr \<lparr>pte_Pointee = p, pte_Version = ucast v, pte_Exists = e\<rparr>)
     | PointerType_ERC20 \<Rightarrow>
         (let (p, v, e) = GetERC20Pointee q ctx (pte_Pointer req)
          in if \<not> e then Inr \<lparr>pte_Pointee = [], pte_Version = 0, pte_Exists = e\<rparr>
             else Inr \<lparr>pte_Pointee = Address_Hex p, pte_Version = ucast v, pte_Exists = e\<rparr>)
     | PointerType_ERC721 \<Rightarrow>
         (let (p, v, e) = GetERC721Pointee q ctx (pte_Pointer req)
          in if \<not> e then Inr \<lparr>pte_Pointee = [], pte_Version = 0, pte_Exists = e\<rparr>
             else Inr \<lparr>pte_Pointee = Address_Hex p, pte_Version = ucast v, pte_Exists = e\<rparr>)
     | PointerType_ERC1155 \<Rightarrow>
         (let (p, v, e) = GetERC1155Pointee q ctx (pte_Pointer req)
          in if \<not> e then Inr \<lparr>pte_Pointee = [], pte_Version = 0, pte_Exists = e\<rparr>
             else Inr \<lparr>pte_Pointee = Address_Hex p, pte_Version = ucast v, pte_Exists = e\<rparr>)
     | PointerType_Other n \<Rightarrow> Inl ErrUnsupported)"

subsection \<open>Notions used to state the properties\<close>


text \<open>
  The record lookup that the branch of \<^verbatim>\<open>Pointer\<close> (of \<^verbatim>\<open>Pointee\<close>) for a standard makes:
  whether the keeper reports a record for the key of the request.
\<close>

definition pointer_registered :: "'st Keeper \<Rightarrow> 'st Context \<Rightarrow> PointerType \<Rightarrow> string \<Rightarrow> bool" where
  "pointer_registered q ctx t k =
    (case t of
       PointerType_NATIVE \<Rightarrow> snd (snd (GetERC20NativePointer q ctx k))
     | PointerType_CW20 \<Rightarrow> snd (snd (GetERC20CW20Pointer q ctx k))
     | PointerType_CW721 \<Rightarrow> snd (snd (GetERC721CW721Pointer q ctx k))
     | PointerType_CW1155 \<Rightarrow> snd (snd (GetERC1155CW1155Pointer q ctx k))
     | PointerType_ERC20 \<Rightarrow> snd (snd (GetCW20ERC20Pointer q ctx (HexToAddress k)))
     | PointerType_ERC721 \<Rightarrow> snd (snd (GetCW721ERC721Pointer q ctx (HexToAddress k)))
     | PointerType_ERC1155 \<Rightarrow> snd (snd (GetCW1155ERC1155Pointer q ctx (HexToAddress k)))
     | PointerType_Other n \<Rightarrow> False)"

definition pointee_registered :: "'st Keeper \<Rightarrow> 'st Context \<Rightarrow> PointerType \<Rightarrow> string \<Rightarrow> bool" where
  "pointee_registered q ctx t s =
    (case t of
       PointerType_NATIVE \<Rightarrow> snd (snd (GetNativePointee q ctx s))
     | PointerType_CW20 \<Rightarrow> snd (snd (GetCW20Pointee q ctx (HexToAddress s)))
     | PointerType_CW721 \<Rightarrow> snd (snd (GetCW721Pointee q ctx (HexToAddress s)))
     | PointerType_CW1155 \<Rightarrow> snd (snd (GetCW1155Pointee q ctx (HexToAddress s)))
     | PointerType_ERC20 \<Rightarrow> snd (snd (GetERC20Pointee q ctx s))
     | PointerType_ERC721 \<Rightarrow> snd (snd (GetERC721Pointee q ctx s))
     | PointerType_ERC1155 \<Rightarrow> snd (snd (GetERC1155Pointee q ctx s))
     | PointerType_Other n \<Rightarrow> False)"

definition known_standard :: "PointerType \<Rightarrow> bool" where
  "known_standard t = (case t of PointerType_Other n \<Rightarrow> False | _ \<Rightarrow> True)"

definition code_template_standard :: "PointerType \<Rightarrow> bool" where
  "code_template_standard t =
    (t = PointerType_ERC20 \<or> t = PointerType_ERC721 \<or> t = PointerType_ERC1155)"

subsection \<open>The pointer registry\<close>


















text \<open>
  The gas limit of a static call as the specification words it (section 4.4): the
  configured multiplier applied to the gas that remains on the ambient meter.
\<close>

definition spec_derived_limit :: "64 word \<Rightarrow> GasMeter \<Rightarrow> 64 word" where
  "spec_derived_limit multiplier meter = multiplier * (Limit meter - GasConsumed meter)"

subsection \<open>A concrete chain state\<close>

text \<open>
  A small registry on which the handlers are evaluated. The CosmWasm contract
  \<open>cw20Contract\<close> has the EVM pointer \<open>evmPointer\<close>; the EVM contract \<open>erc20Contract\<close> has the
  CosmWasm pointer \<open>cwPointer\<close>; the denomination \<open>usei\<close> has the EVM pointer
  \<open>nativePointer\<close>. No account is associated. The three EVM addresses have decimal
  digits only, which the EIP-55 checksum leaves as they are.
\<close>

definition evmPointer :: Address where
  "evmPointer = [0x12, 0x34, 0x56, 0x78, 0x90, 0x12, 0x34, 0x56, 0x78, 0x90,
                 0x12, 0x34, 0x56, 0x78, 0x90, 0x12, 0x34, 0x56, 0x78, 0x90]"

definition erc20Contract :: Address where
  "erc20Contract = [0x42, 0x42, 0x42, 0x42, 0x42, 0x42, 0x42, 0x42, 0x42, 0x42,
                    0x42, 0x42, 0x42, 0x42, 0x42, 0x42, 0x42, 0x42, 0x42, 0x42]"

definition nativePointer :: Address where
  "nativePointer = [0x77, 0x77, 0x77, 0x77, 0x77, 0x77, 0x77, 0x77, 0x77, 0x77,
                    0x77, 0x77, 0x77, 0x77, 0x77, 0x77, 0x77, 0x77, 0x77, 0x77]"

definition cw20Contract :: string where
  "cw20Contract = ''sei14hj2tavq8fpesdwxxcu44rty3hh90vhujrvcmstl4zr3txmfvw9sh9m79m''"

definition cwPointer :: AccAddress where
  "cwPointer = [0x01, 0x02, 0x03, 0x04, 0x05, 0x06, 0x07, 0x08, 0x09, 0x0a,
                0x0b, 0x0c, 0x0d, 0x0e, 0x0f, 0x10, 0x11, 0x12, 0x13, 0x14]"

definition cwPointerString :: string where
  "cwPointerString = ''sei1qypqxpq9qcrsszg2pvxq6rs0zqg3yyc5jwagqa''"

definition moduleAccount :: AccAddress where
  "moduleAccount = [0xa1, 0xa2, 0xa3, 0xa4, 0xa5, 0xa6, 0xa7, 0xa8, 0xa9, 0xaa,
                    0xab, 0xac, 0xad, 0xae, 0xaf, 0xb0, 0xb1, 0xb2, 0xb3, 0xb4]"

text \<open>
  The package functions on this state: the two bech32 functions are given on the one
  address the examples print or parse, and the gas multiplier is 1.
\<close>

definition demoPackages :: "unit Packages" where
  "demoPackages =
    \<lparr>AccAddressFromBech32 =
        (\<lambda>s. if s = cwPointerString then Inr cwPointer
             else Inl (ErrorFrom ''decoding bech32 failed'')),
     AccAddress_String = (\<lambda>a. if a = cwPointer then cwPointerString else []),
     NewGasMeterWithMultiplier = NewGasMeterWithMultiplier_spec (\<lambda>ctx. (1, 1)),
     native_CurrentVersion = 1,
     cw20_CurrentVersion = (\<lambda>ctx. if BlockHeight ctx < 1000 then 1 else 2),
     cw721_CurrentVersion = 1,
     cw1155_CurrentVersion = 1,
     erc20_CurrentVersion = 1,
     erc721_CurrentVersion = 1,
     erc1155_CurrentVersion = 1\<rparr>"

definition notFoundAddr :: "Address \<times> 16 word \<times> bool" where
  "notFoundAddr = ([], 0, False)"

definition notFoundStr :: "string \<times> 16 word \<times> bool" where
  "notFoundStr = ([], 0, False)"

text \<open>The EVM of the example returns the call data and charges 10 units of gas.\<close>

definition demoKeeper :: "unit Keeper" where
  "demoKeeper =
    \<lparr>QueryConfig_GasLimit = 10000000,
     GetModuleAddress = (\<lambda>name. if name = ''evm'' then moduleAccount else []),
     GetSeiAddress = (\<lambda>ctx a. ([], False)),
     GetEVMAddress = (\<lambda>ctx a. ([], False)),
     StaticCallEVM = (\<lambda>ctx from to d.
        (Inr d, (GasMeter ctx)\<lparr>GasConsumed := GasConsumed (GasMeter ctx) + 10\<rparr>)),
     GetERC20NativePointer = (\<lambda>ctx d. if d = ''usei'' then (nativePointer, 1, True) else notFoundAddr),
     GetERC20CW20Pointer = (\<lambda>ctx c. if c = cw20Contract then (evmPointer, 1, True) else notFoundAddr),
     GetERC721CW721Pointer = (\<lambda>ctx c. notFoundAddr),
     GetERC1155CW1155Pointer = (\<lambda>ctx c. notFoundAddr),
     GetCW20ERC20Pointer = (\<lambda>ctx a. if a = erc20Contract then (cwPointer, 1, True) else notFoundAddr),
     GetCW721ERC721Pointer = (\<lambda>ctx a. notFoundAddr),
     GetCW1155ERC1155Pointer = (\<lambda>ctx a. notFoundAddr),
     GetNativePointee = (\<lambda>ctx s. if HexToAddress s = nativePointer then (''usei'', 1, True) else notFoundStr),
     GetCW20Pointee = (\<lambda>ctx p. if p = evmPointer then (cw20Contract, 1, True) else notFoundStr),
     GetCW721Pointee = (\<lambda>ctx p. notFoundStr),
     GetCW1155Pointee = (\<lambda>ctx p. notFoundStr),
     GetERC20Pointee = (\<lambda>ctx s. if s = cwPointerString then (erc20Contract, 1, True) else notFoundAddr),
     GetERC721Pointee = (\<lambda>ctx s. notFoundAddr),
     GetERC1155Pointee = (\<lambda>ctx s. notFoundAddr),
     GetStoredPointerCodeID = (\<lambda>ctx t. 0)\<rparr>"

text \<open>A context with the infinite meter of a query (limit 0), and one with a limit.\<close>

definition queryCtx :: "unit Context" where
  "queryCtx = \<lparr>GasMeter = \<lparr>Limit = 0, GasConsumed = 0, Infinite = True, Multiplier = (1, 1)\<rparr>,
               BlockHeight = 500,
               ChainID = ''pacific-1'', MultiStore = ()\<rparr>"

definition meteredCtx :: "unit Context" where
  "meteredCtx = \<lparr>GasMeter = \<lparr>Limit = 100, GasConsumed = 40, Infinite = False, Multiplier = (1, 1)\<rparr>,
                 BlockHeight = 2000,
                 ChainID = ''pacific-1'', MultiStore = ()\<rparr>"



section \<open>Properties\<close>

subsection \<open>The address codec\<close>

text \<open>
  Printing an address and reading the text back gives the address: the reader takes digits
  of either case, so the letters the checksum raises do not matter.
\<close>

lemma length_Keccak256: "length (Keccak256 m) = 32"
  by (simp add: Keccak256_def Let_def)





lemma byte_split: "(of_nat (16 * (unat b div 16) + unat b mod 16) :: byte) = b"
  by simp







lemma length_BytesToAddress: "length (BytesToAddress b) = 20"
  by (simp add: BytesToAddress_def AddressLength_def Let_def)

lemma length_HexToAddress: "length (HexToAddress s) = 20"
  by (simp add: HexToAddress_def length_BytesToAddress)


lemma checksumFrom_digits:
  "\<forall>c\<in>set cs. (of_char c :: nat) \<le> 57 \<Longrightarrow> checksumFrom h i cs = cs"
  by (induction cs arbitrary: i) (auto simp: Let_def)


subsection \<open>The handlers on the concrete chain state\<close>

lemmas HexToAddress_eval =
  HexToAddress_def FromHex_def has0xPrefix_def Hex2Bytes_def fromHexChar_def
  BytesToAddress_def AddressLength_def


lemma Address_Hex_nativePointer:
  "Address_Hex nativePointer = ''0x7777777777777777777777777777777777777777''"
proof -
  have "hexEncode nativePointer = ''7777777777777777777777777777777777777777''"
    by (simp add: hexEncode_def hextable_def nativePointer_def)
  then show ?thesis
    by (simp add: Address_Hex_def checksumHex_def Let_def checksumFrom_digits)
qed





lemma length_fixture [simp]:
  "length evmPointer = 20" "length erc20Contract = 20" "length nativePointer = 20"
  by (simp_all add: evmPointer_def erc20Contract_def nativePointer_def)









lemma demoPackages_spec_meter:
  "demoPackages\<lparr>NewGasMeterWithMultiplier := NewGasMeterWithMultiplier_spec (\<lambda>ctx. (1, 1))\<rparr>
    = demoPackages"
  by (simp add: demoPackages_def)


subsection \<open>Lookups in the pointer registry\<close>

lemma ucast_version_inj: "(ucast (a :: 16 word) :: 32 word) = ucast b \<Longrightarrow> a = b"
  by (rule injD [OF down_ucast_inj]) (simp_all add: is_down)













subsection \<open>C1: round trip between pointer and pointee\<close>




subsection \<open>C2: a static call without target\<close>

text \<open>
  C2, as the code has it: for every call data, \<^verbatim>\<open>StaticCall\<close> with an empty target fails
  with the error "cannot use static call to create contracts", made by \<^verbatim>\<open>errors.New\<close>,
  which is not \<^verbatim>\<open>sdkerrors.ErrInvalidRequest\<close>; it fails whatever the keeper and its EVM
  are, and the caller finds the gas meter as it was: the gas used by the call is zero.
\<close>

theorem StaticCall_empty_target:
  "StaticCall P q ctx \<lparr>To = [], Data = d\<rparr>
     = (Inl (ErrorNew ''cannot use static call to create contracts''), GasMeter ctx)
   \<and> GasConsumed (snd (StaticCall P q ctx \<lparr>To = [], Data = d\<rparr>)) - GasConsumed (GasMeter ctx) = 0
   \<and> fst (StaticCall P q ctx \<lparr>To = [], Data = d\<rparr>) \<noteq> Inl ErrInvalidRequest"
  by (simp add: StaticCall_def)

text \<open>
  Counterexample to C2 as stated: the error of a static call without target is not the
  invalid-argument error with which the address lookup rejects an empty address.
\<close>

theorem StaticCall_empty_target_counterexample:
  "fst (StaticCall demoPackages demoKeeper queryCtx \<lparr>To = [], Data = [1, 2]\<rparr>)
     = Inl (ErrorNew ''cannot use static call to create contracts'')
   \<and> fst (StaticCall demoPackages demoKeeper queryCtx \<lparr>To = [], Data = [1, 2]\<rparr>)
     \<noteq> Inl ErrInvalidRequest
   \<and> SeiAddressByEVMAddress demoPackages demoKeeper queryCtx \<lparr>EvmAddress = []\<rparr>
     = Inl ErrInvalidRequest"
  by (simp add: StaticCall_def SeiAddressByEVMAddress_def)

subsection \<open>C3: the gas meter of a static call\<close>

text \<open>
  C3, as the code has it. A request carries no gas limit. When the limit of the gas meter
  of the query context is not zero, \<^verbatim>\<open>StaticCall\<close> executes under that context
  unchanged: no limit is derived and nothing configured is applied. When the limit is
  zero, it executes under the meter that \<^verbatim>\<open>NewGasMeterWithMultiplier\<close> makes from the
  context and the configured query gas limit; with the new meter of the specification
  the call does not proceed with an unlimited budget: the meter enforces the configured
  limit, starts from a fresh baseline with nothing consumed, and applies the configured
  multiplier. For a non-empty target the result is that of the EVM under that context.
\<close>

theorem StaticCall_gas_meter:
  "(Limit (GasMeter ctx) \<noteq> 0 \<longrightarrow> StaticCall_ctx P q ctx = ctx)
   \<and> (Limit (GasMeter ctx) = 0 \<longrightarrow>
        StaticCall_ctx P q ctx
          = ctx\<lparr>GasMeter := NewGasMeterWithMultiplier P ctx (QueryConfig_GasLimit q)\<rparr>)
   \<and> (Limit (GasMeter ctx) = 0 \<longrightarrow>
        \<not> Infinite (GasMeter (StaticCall_ctx
              (P\<lparr>NewGasMeterWithMultiplier := NewGasMeterWithMultiplier_spec mult\<rparr>) q ctx))
        \<and> GasConsumed (GasMeter (StaticCall_ctx
              (P\<lparr>NewGasMeterWithMultiplier := NewGasMeterWithMultiplier_spec mult\<rparr>) q ctx)) = 0
        \<and> Limit (GasMeter (StaticCall_ctx
              (P\<lparr>NewGasMeterWithMultiplier := NewGasMeterWithMultiplier_spec mult\<rparr>) q ctx))
            = QueryConfig_GasLimit q
        \<and> Multiplier (GasMeter (StaticCall_ctx
              (P\<lparr>NewGasMeterWithMultiplier := NewGasMeterWithMultiplier_spec mult\<rparr>) q ctx))
            = mult ctx)
   \<and> (To req \<noteq> [] \<longrightarrow>
        fst (StaticCall P q ctx req)
          = map_sum id (\<lambda>res. \<lparr>res_Data = res\<rparr>)
              (fst (StaticCallEVM q (StaticCall_ctx P q ctx) (GetModuleAddress q ModuleName)
                      (HexToAddress (To req)) (Data req))))"
  by (simp add: StaticCall_def StaticCall_ctx_def WithGasMeter_def NewGasMeterWithMultiplier_spec_def
      Let_def split: prod.split sum.split)

text \<open>
  Witness for C3: a context with limit 100 is kept; a context with the infinite meter
  gets a new meter with the configured limit, which is not infinite; and the call
  returns the output of the EVM.
\<close>

theorem StaticCall_gas_meter_witness:
  "Limit (GasMeter meteredCtx) \<noteq> 0
   \<and> StaticCall_ctx demoPackages demoKeeper meteredCtx = meteredCtx
   \<and> Limit (GasMeter queryCtx) = 0
   \<and> Infinite (GasMeter queryCtx)
   \<and> StaticCall_ctx demoPackages demoKeeper queryCtx
       = queryCtx\<lparr>GasMeter := \<lparr>Limit = 10000000, GasConsumed = 0, Infinite = False,
                                Multiplier = (1, 1)\<rparr>\<rparr>
   \<and> \<not> Infinite (GasMeter (StaticCall_ctx demoPackages demoKeeper queryCtx))
   \<and> Limit (GasMeter (StaticCall_ctx demoPackages demoKeeper queryCtx)) = 10000000
   \<and> ''0x1234567890123456789012345678901234567890'' \<noteq> []
   \<and> fst (StaticCall demoPackages demoKeeper queryCtx
            \<lparr>To = ''0x1234567890123456789012345678901234567890'', Data = [1, 2]\<rparr>)
       = Inr \<lparr>res_Data = [1, 2]\<rparr>"
  using StaticCall_gas_meter [where ctx = meteredCtx and P = demoPackages and q = demoKeeper
      and mult = "\<lambda>ctx. (1, 1)"
      and req = "\<lparr>To = ''0x1234567890123456789012345678901234567890'', Data = [1, 2]\<rparr>"]
    StaticCall_gas_meter [where ctx = queryCtx and P = demoPackages and q = demoKeeper
      and mult = "\<lambda>ctx. (1, 1)"
      and req = "\<lparr>To = ''0x1234567890123456789012345678901234567890'', Data = [1, 2]\<rparr>"]
  by (simp add: demoPackages_spec_meter)
     (simp add: meteredCtx_def queryCtx_def demoKeeper_def demoPackages_def
        NewGasMeterWithMultiplier_spec_def)

text \<open>
  Counterexample to C3 as stated: on a meter with limit 100 of which 40 are consumed, the
  call executes under this very meter whether 3 or 7 is configured, with limit 100 where
  a multiplier 3 applied to the remaining 60 would give 180, and the caller's meter is
  charged by the execution.
\<close>

theorem StaticCall_gas_meter_counterexample:
  "StaticCall_ctx demoPackages (demoKeeper\<lparr>QueryConfig_GasLimit := 3\<rparr>) meteredCtx = meteredCtx
   \<and> StaticCall_ctx demoPackages (demoKeeper\<lparr>QueryConfig_GasLimit := 7\<rparr>) meteredCtx = meteredCtx
   \<and> Limit (GasMeter (StaticCall_ctx demoPackages (demoKeeper\<lparr>QueryConfig_GasLimit := 3\<rparr>) meteredCtx))
        = 100
   \<and> spec_derived_limit 3 (GasMeter meteredCtx) = 180
   \<and> StaticCall demoPackages (demoKeeper\<lparr>QueryConfig_GasLimit := 3\<rparr>) meteredCtx
        \<lparr>To = ''0x1234567890123456789012345678901234567890'', Data = [1, 2]\<rparr>
       = (Inr \<lparr>res_Data = [1, 2]\<rparr>,
          \<lparr>Limit = 100, GasConsumed = 50, Infinite = False, Multiplier = (1, 1)\<rparr>)"
  by (simp add: StaticCall_def StaticCall_ctx_def meteredCtx_def demoKeeper_def spec_derived_limit_def)

subsection \<open>C4: validation of the address lookups\<close>

text \<open>
  C4, as the code has it. In both directions an empty address fails with
  \<^verbatim>\<open>ErrInvalidRequest\<close>. \<^verbatim>\<open>EVMAddressBySeiAddress\<close> fails on a non-empty address that the
  bech32 decoder rejects, with the decoder's error, and answers \<open>associated = false\<close>
  without error for a decoded address with no association. \<^verbatim>\<open>SeiAddressByEVMAddress\<close>
  rejects no non-empty text: it looks up the address \<^verbatim>\<open>HexToAddress\<close> reads from it and
  answers without error, \<open>associated\<close> telling whether that address has an association.
\<close>

theorem address_lookup_validation:
  "SeiAddressByEVMAddress P q ctx \<lparr>EvmAddress = []\<rparr> = Inl ErrInvalidRequest
   \<and> EVMAddressBySeiAddress P q ctx \<lparr>req_SeiAddress = []\<rparr> = Inl ErrInvalidRequest
   \<and> (s \<noteq> [] \<and> AccAddressFromBech32 P s = Inl e \<longrightarrow>
        EVMAddressBySeiAddress P q ctx \<lparr>req_SeiAddress = s\<rparr> = Inl e)
   \<and> (s \<noteq> [] \<and> AccAddressFromBech32 P s = Inr a \<and> \<not> snd (GetEVMAddress q ctx a) \<longrightarrow>
        EVMAddressBySeiAddress P q ctx \<lparr>req_SeiAddress = s\<rparr>
          = Inr \<lparr>res_EvmAddress = [], res_Associated = False\<rparr>)
   \<and> (h \<noteq> [] \<longrightarrow>
        (\<exists>r. SeiAddressByEVMAddress P q ctx \<lparr>EvmAddress = h\<rparr> = Inr r
            \<and> Associated r = snd (GetSeiAddress q ctx (HexToAddress h))))"
  by (simp add: SeiAddressByEVMAddress_def EVMAddressBySeiAddress_def Let_def split: prod.split)

text \<open>
  Witness for C4: a text the decoder rejects, a decoded address without association,
  and an EVM address without association.
\<close>

theorem address_lookup_validation_witness:
  "''sei1notbech32'' \<noteq> []
   \<and> AccAddressFromBech32 demoPackages ''sei1notbech32'' = Inl (ErrorFrom ''decoding bech32 failed'')
   \<and> EVMAddressBySeiAddress demoPackages demoKeeper queryCtx \<lparr>req_SeiAddress = ''sei1notbech32''\<rparr>
       = Inl (ErrorFrom ''decoding bech32 failed'')
   \<and> cwPointerString \<noteq> []
   \<and> AccAddressFromBech32 demoPackages cwPointerString = Inr cwPointer
   \<and> \<not> snd (GetEVMAddress demoKeeper queryCtx cwPointer)
   \<and> EVMAddressBySeiAddress demoPackages demoKeeper queryCtx \<lparr>req_SeiAddress = cwPointerString\<rparr>
       = Inr \<lparr>res_EvmAddress = [], res_Associated = False\<rparr>
   \<and> (\<exists>r. SeiAddressByEVMAddress demoPackages demoKeeper queryCtx
              \<lparr>EvmAddress = ''0x1234567890123456789012345678901234567890''\<rparr> = Inr r
          \<and> \<not> Associated r)"
  using address_lookup_validation [where P = demoPackages and q = demoKeeper and ctx = queryCtx
      and s = "''sei1notbech32''" and e = "ErrorFrom ''decoding bech32 failed''" and a = cwPointer
      and h = "''0x1234567890123456789012345678901234567890''"]
    address_lookup_validation [where P = demoPackages and q = demoKeeper and ctx = queryCtx
      and s = cwPointerString and e = "ErrorFrom ''decoding bech32 failed''" and a = cwPointer
      and h = "''0x1234567890123456789012345678901234567890''"]
  by (simp add: demoPackages_def demoKeeper_def cwPointerString_def)

text \<open>
  Counterexample to C4 as stated: \<^verbatim>\<open>not-an-address\<close> is no hexadecimal address, and
  \<^verbatim>\<open>SeiAddressByEVMAddress\<close> answers \<open>associated = false\<close> for it, without an error.
\<close>

theorem address_lookup_counterexample:
  "SeiAddressByEVMAddress demoPackages demoKeeper queryCtx \<lparr>EvmAddress = ''not-an-address''\<rparr>
     = Inr \<lparr>SeiAddress = [], Associated = False\<rparr>"
  by (simp add: SeiAddressByEVMAddress_def demoKeeper_def)

subsection \<open>C5: the caller of a static call\<close>

text \<open>
  C5: the EVM is entered with the address of the module account as caller, an
  expression in which the request does not occur; and the result of \<^verbatim>\<open>StaticCall\<close>
  depends on the EVM only through executions whose caller is the module account: two
  keepers whose EVMs agree for this caller give the same result on every request.
\<close>

theorem StaticCall_caller_is_module_account:
  "(To req \<noteq> [] \<longrightarrow>
      fst (StaticCall P q ctx req)
        = map_sum id (\<lambda>res. \<lparr>res_Data = res\<rparr>)
            (fst (StaticCallEVM q (StaticCall_ctx P q ctx) (GetModuleAddress q ModuleName)
                    (HexToAddress (To req)) (Data req))))
   \<and> ((\<forall>c to d. StaticCallEVM q' c (GetModuleAddress q ModuleName) to d
                  = StaticCallEVM q c (GetModuleAddress q ModuleName) to d)
        \<and> GetModuleAddress q' = GetModuleAddress q
        \<and> QueryConfig_GasLimit q' = QueryConfig_GasLimit q
      \<longrightarrow> StaticCall P q' ctx req = StaticCall P q ctx req)"
  by (simp add: StaticCall_def StaticCall_ctx_def Let_def split: prod.split sum.split)

text \<open>
  Witness for C5: an EVM that reverts for every caller but the module account cannot be
  told from the EVM of the example through \<^verbatim>\<open>StaticCall\<close>.
\<close>

theorem StaticCall_caller_is_module_account_witness:
  "(\<forall>c to d. StaticCallEVM
        (demoKeeper\<lparr>StaticCallEVM := (\<lambda>c from to d.
            if from = moduleAccount then StaticCallEVM demoKeeper c from to d
            else (Inl (ErrorFrom ''execution reverted''), GasMeter c))\<rparr>)
        c (GetModuleAddress demoKeeper ModuleName) to d
      = StaticCallEVM demoKeeper c (GetModuleAddress demoKeeper ModuleName) to d)
   \<and> StaticCall demoPackages
        (demoKeeper\<lparr>StaticCallEVM := (\<lambda>c from to d.
            if from = moduleAccount then StaticCallEVM demoKeeper c from to d
            else (Inl (ErrorFrom ''execution reverted''), GasMeter c))\<rparr>)
        meteredCtx \<lparr>To = ''0x1234567890123456789012345678901234567890'', Data = [1, 2]\<rparr>
      = StaticCall demoPackages demoKeeper meteredCtx
          \<lparr>To = ''0x1234567890123456789012345678901234567890'', Data = [1, 2]\<rparr>
   \<and> fst (StaticCall demoPackages demoKeeper meteredCtx
            \<lparr>To = ''0x1234567890123456789012345678901234567890'', Data = [1, 2]\<rparr>)
      = Inr \<lparr>res_Data = [1, 2]\<rparr>"
  using StaticCall_caller_is_module_account [where
      req = "\<lparr>To = ''0x1234567890123456789012345678901234567890'', Data = [1, 2]\<rparr>"
      and P = demoPackages and q = demoKeeper and ctx = meteredCtx
      and q' = "demoKeeper\<lparr>StaticCallEVM := (\<lambda>c from to d.
            if from = moduleAccount then StaticCallEVM demoKeeper c from to d
            else (Inl (ErrorFrom ''execution reverted''), GasMeter c))\<rparr>"]
  by (simp add: demoKeeper_def ModuleName_def)

subsection \<open>C6: empty and unregistered keys\<close>

text \<open>
  C6: for each of the seven standards, \<^verbatim>\<open>Pointer\<close> with an empty pointee fails with
  "must specify a pointee" and \<^verbatim>\<open>Pointee\<close> with an empty pointer with "must specify a
  pointer"; with a non-empty key for which the keeper has no record, each succeeds with
  \<open>exists = false\<close>, an empty address or key and version 0.
\<close>

theorem Pointer_Pointee_missing_or_unregistered:
  "known_standard t \<Longrightarrow>
    Pointer P q ctx \<lparr>ptr_PointerType = t, ptr_Pointee = []\<rparr> = Inl ErrMustSpecifyPointee
    \<and> Pointee P q ctx \<lparr>pte_PointerType = t, pte_Pointer = []\<rparr> = Inl ErrMustSpecifyPointer
    \<and> (k \<noteq> [] \<and> \<not> pointer_registered q ctx t k \<longrightarrow>
          Pointer P q ctx \<lparr>ptr_PointerType = t, ptr_Pointee = k\<rparr>
            = Inr \<lparr>ptr_Pointer = [], ptr_Version = 0, ptr_Exists = False\<rparr>)
    \<and> (s \<noteq> [] \<and> \<not> pointee_registered q ctx t s \<longrightarrow>
          Pointee P q ctx \<lparr>pte_PointerType = t, pte_Pointer = s\<rparr>
            = Inr \<lparr>pte_Pointee = [], pte_Version = 0, pte_Exists = False\<rparr>)"
  by (cases t)
     (simp_all add: Pointer_def Pointee_def pointer_registered_def pointee_registered_def
        known_standard_def split: prod.split)

text \<open>
  Witness for C6: keys that the concrete chain state does not hold.
\<close>

theorem Pointer_Pointee_missing_or_unregistered_witness:
  "known_standard PointerType_CW20
   \<and> ''sei1unregistered'' \<noteq> []
   \<and> \<not> pointer_registered demoKeeper queryCtx PointerType_CW20 ''sei1unregistered''
   \<and> Pointer demoPackages demoKeeper queryCtx
        \<lparr>ptr_PointerType = PointerType_CW20, ptr_Pointee = ''sei1unregistered''\<rparr>
       = Inr \<lparr>ptr_Pointer = [], ptr_Version = 0, ptr_Exists = False\<rparr>
   \<and> ''0x01'' \<noteq> []
   \<and> \<not> pointee_registered demoKeeper queryCtx PointerType_CW20 ''0x01''
   \<and> Pointee demoPackages demoKeeper queryCtx
        \<lparr>pte_PointerType = PointerType_CW20, pte_Pointer = ''0x01''\<rparr>
       = Inr \<lparr>pte_Pointee = [], pte_Version = 0, pte_Exists = False\<rparr>"
proof -
  have u: "\<not> pointer_registered demoKeeper queryCtx PointerType_CW20 ''sei1unregistered''"
    by (simp add: pointer_registered_def demoKeeper_def cw20Contract_def notFoundAddr_def)
  have a: "HexToAddress ''0x01'' \<noteq> evmPointer"
    by (simp add: HexToAddress_eval evmPointer_def)
  have v: "\<not> pointee_registered demoKeeper queryCtx PointerType_CW20 ''0x01''"
    by (simp add: pointee_registered_def demoKeeper_def a notFoundStr_def)
  show ?thesis
    using Pointer_Pointee_missing_or_unregistered [where t = PointerType_CW20
        and k = "''sei1unregistered''" and s = "''0x01''" and q = demoKeeper and ctx = queryCtx
        and P = demoPackages] u v
    by (simp add: known_standard_def)
qed

subsection \<open>C7: unknown standards\<close>

text \<open>
  C7: for a standard outside the seven and non-empty keys, \<^verbatim>\<open>Pointer\<close>,
  \<^verbatim>\<open>Pointee\<close> and \<^verbatim>\<open>PointerVersion\<close> fail with the same error,
  \<^verbatim>\<open>errors.ErrUnsupported\<close>.
\<close>

theorem unknown_standard_unsupported:
  "\<not> known_standard t \<Longrightarrow> k \<noteq> [] \<Longrightarrow> s \<noteq> [] \<Longrightarrow>
    Pointer P q ctx \<lparr>ptr_PointerType = t, ptr_Pointee = k\<rparr> = Inl ErrUnsupported
    \<and> Pointee P q ctx \<lparr>pte_PointerType = t, pte_Pointer = s\<rparr> = Inl ErrUnsupported
    \<and> PointerVersion P q ctx \<lparr>ver_PointerType = t\<rparr> = Inl ErrUnsupported"
  by (cases t) (simp_all add: Pointer_def Pointee_def PointerVersion_def known_standard_def)

text \<open>
  Witness for C7: the enum value 7.
\<close>

theorem unknown_standard_unsupported_witness:
  "\<not> known_standard (PointerType_Other 7) \<and> ''usei'' \<noteq> [] \<and> cwPointerString \<noteq> []
   \<and> Pointer demoPackages demoKeeper queryCtx
        \<lparr>ptr_PointerType = PointerType_Other 7, ptr_Pointee = ''usei''\<rparr> = Inl ErrUnsupported
   \<and> Pointee demoPackages demoKeeper queryCtx
        \<lparr>pte_PointerType = PointerType_Other 7, pte_Pointer = cwPointerString\<rparr> = Inl ErrUnsupported
   \<and> PointerVersion demoPackages demoKeeper queryCtx
        \<lparr>ver_PointerType = PointerType_Other 7\<rparr> = Inl ErrUnsupported"
  using unknown_standard_unsupported [where t = "PointerType_Other 7" and k = "''usei''"
      and s = cwPointerString and P = demoPackages and q = demoKeeper and ctx = queryCtx]
  by (simp add: known_standard_def cwPointerString_def)

subsection \<open>C8: the version query never fails\<close>

text \<open>
  C8: for each of the seven standards and every context, \<^verbatim>\<open>PointerVersion\<close> succeeds.
  For \<open>ERC20\<close>, \<open>ERC721\<close> and \<open>ERC1155\<close> the code identifier of the response is the
  number the keeper has stored, so the zero it reports when nothing is stored is
  answered as zero and not as an error; for the other four standards the field is left
  at its zero value.
\<close>

theorem PointerVersion_never_fails:
  "known_standard t \<Longrightarrow>
    \<exists>r. PointerVersion P q ctx \<lparr>ver_PointerType = t\<rparr> = Inr r
       \<and> ver_CwCodeId r = (if code_template_standard t then GetStoredPointerCodeID q ctx t else 0)"
  by (cases t) (simp_all add: PointerVersion_def known_standard_def code_template_standard_def)

text \<open>
  Witness for C8: a code-template standard with no stored code, and a standard that
  reports no code identifier.
\<close>

theorem PointerVersion_never_fails_witness:
  "known_standard PointerType_ERC20
   \<and> (\<exists>r. PointerVersion demoPackages demoKeeper queryCtx \<lparr>ver_PointerType = PointerType_ERC20\<rparr> = Inr r
          \<and> ver_CwCodeId r = 0)
   \<and> known_standard PointerType_CW721
   \<and> (\<exists>r. PointerVersion demoPackages demoKeeper queryCtx \<lparr>ver_PointerType = PointerType_CW721\<rparr> = Inr r
          \<and> ver_CwCodeId r = 0)"
  using PointerVersion_never_fails [where t = PointerType_ERC20 and P = demoPackages
      and q = demoKeeper and ctx = queryCtx]
    PointerVersion_never_fails [where t = PointerType_CW721 and P = demoPackages
      and q = demoKeeper and ctx = queryCtx]
  by (simp add: known_standard_def code_template_standard_def demoKeeper_def)

subsection \<open>C9: fixed and live versions\<close>

text \<open>
  C9: for \<open>NATIVE\<close>, \<open>CW721\<close>, \<open>CW1155\<close>, \<open>ERC20\<close>, \<open>ERC721\<close> and \<open>ERC1155\<close> the
  version \<^verbatim>\<open>PointerVersion\<close> reports is one value for every keeper and every context;
  for \<open>CW20\<close> it is \<^verbatim>\<open>cw20.CurrentVersion\<close> of the context of the query, so that two
  contexts in which that version differs get different answers.
\<close>

theorem PointerVersion_fixed_or_live:
  "(t \<in> {PointerType_NATIVE, PointerType_CW721, PointerType_CW1155,
          PointerType_ERC20, PointerType_ERC721, PointerType_ERC1155} \<longrightarrow>
      (\<exists>v. \<forall>q ctx. \<exists>r. PointerVersion P q ctx \<lparr>ver_PointerType = t\<rparr> = Inr r \<and> ver_Version r = v))
   \<and> (\<exists>r. PointerVersion P q ctx \<lparr>ver_PointerType = PointerType_CW20\<rparr> = Inr r
          \<and> ver_Version r = ucast (cw20_CurrentVersion P ctx))
   \<and> (cw20_CurrentVersion P ctx \<noteq> cw20_CurrentVersion P ctx' \<longrightarrow>
        PointerVersion P q ctx \<lparr>ver_PointerType = PointerType_CW20\<rparr>
          \<noteq> PointerVersion P q ctx' \<lparr>ver_PointerType = PointerType_CW20\<rparr>)"
  by (auto simp: PointerVersion_def dest: ucast_version_inj)

text \<open>
  Witness for C9: two block heights between which the CW20 version changes.
\<close>

theorem PointerVersion_fixed_or_live_witness:
  "PointerType_ERC721 \<in> {PointerType_NATIVE, PointerType_CW721, PointerType_CW1155,
          PointerType_ERC20, PointerType_ERC721, PointerType_ERC1155}
   \<and> (\<exists>v. \<forall>q ctx. \<exists>r. PointerVersion demoPackages q ctx \<lparr>ver_PointerType = PointerType_ERC721\<rparr> = Inr r
          \<and> ver_Version r = v)
   \<and> cw20_CurrentVersion demoPackages queryCtx \<noteq> cw20_CurrentVersion demoPackages meteredCtx
   \<and> PointerVersion demoPackages demoKeeper queryCtx \<lparr>ver_PointerType = PointerType_CW20\<rparr>
        \<noteq> PointerVersion demoPackages demoKeeper meteredCtx \<lparr>ver_PointerType = PointerType_CW20\<rparr>"
proof -
  have d: "cw20_CurrentVersion demoPackages queryCtx \<noteq> cw20_CurrentVersion demoPackages meteredCtx"
    by (simp add: demoPackages_def queryCtx_def meteredCtx_def)
  show ?thesis
    using PointerVersion_fixed_or_live [where t = PointerType_ERC721 and P = demoPackages
        and q = demoKeeper and ctx = queryCtx and ctx' = meteredCtx] d
    by simp
qed

subsection \<open>C10: the empty key is checked first\<close>

text \<open>
  C10: with an empty pointee (pointer), \<^verbatim>\<open>Pointer\<close> (\<^verbatim>\<open>Pointee\<close>) fails with "must
  specify a pointee" ("must specify a pointer") for every standard, known or not; for a
  standard outside the seven the error is not \<^verbatim>\<open>errors.ErrUnsupported\<close>.
\<close>

theorem empty_key_before_standard:
  "Pointer P q ctx \<lparr>ptr_PointerType = t, ptr_Pointee = []\<rparr> = Inl ErrMustSpecifyPointee
   \<and> Pointee P q ctx \<lparr>pte_PointerType = t, pte_Pointer = []\<rparr> = Inl ErrMustSpecifyPointer
   \<and> Pointer P q ctx \<lparr>ptr_PointerType = PointerType_Other n, ptr_Pointee = []\<rparr> \<noteq> Inl ErrUnsupported
   \<and> Pointee P q ctx \<lparr>pte_PointerType = PointerType_Other n, pte_Pointer = []\<rparr> \<noteq> Inl ErrUnsupported"
  by (simp add: Pointer_def Pointee_def ErrMustSpecifyPointee_def ErrMustSpecifyPointer_def)

end
